theory Spec2Isabelle
  imports Complex_Main
begin

section \<open>Values of the source language\<close>

text \<open>
  The program is one JavaScript module. Its numbers are IEEE doubles; here they are exact
  reals, extended by \<open>NaN\<close>. The rounding of each floating-point operation to a double
  and the overflow to \<open>Infinity\<close> are not modelled. So the model and the code can differ
  in the last digit that \<open>toFixed\<close> keeps when the exact product lies on or next to a
  rounding tie (maize, 3 ha, moisture 24, pH 7, 25 degrees: exact product 13.965, the
  double just below it). What is proved below is about signs, bounds and order of the
  results, about which branch is taken, and about single inputs away from a tie; no
  statement here gives the exact yield for all inputs.
\<close>

datatype number = NaN | Fin real

text \<open>
  What a property read on the object literal \<open>baseByCrop\<close> can give back: \<open>undefined\<close>,
  a (finite) number, or a function or object found on the prototype chain.
\<close>

datatype jsvalue = Undefined | Number real | Object

datatype error = RangeError

text \<open>\<open>ToBoolean\<close>: \<open>undefined\<close> and \<open>0\<close> are falsy, every object is truthy.\<close>

fun ToBoolean :: "jsvalue \<Rightarrow> bool" where
  "ToBoolean Undefined = False"
| "ToBoolean (Number v) = (v \<noteq> 0)"
| "ToBoolean Object = True"

text \<open>The operator \<open>a || b\<close>.\<close>

definition or_else :: "jsvalue \<Rightarrow> jsvalue \<Rightarrow> jsvalue" where
  "or_else a b = (if ToBoolean a then a else b)"

text \<open>
  \<open>ToNumber\<close>: \<open>undefined\<close> is \<open>NaN\<close>; a function or a plain object converts through its
  string form, which is not a numeric literal, so it is \<open>NaN\<close> as well.
\<close>

fun ToNumber :: "jsvalue \<Rightarrow> number" where
  "ToNumber Undefined = NaN"
| "ToNumber (Number v) = Fin v"
| "ToNumber Object = NaN"

text \<open>
  The operator \<open>*\<close> on numbers: \<open>NaN\<close> is absorbing; the product of two numbers is
  the exact one, where the code has the double nearest to it.
\<close>

fun times_number :: "number \<Rightarrow> number \<Rightarrow> number" where
  "times_number (Fin a) (Fin b) = Fin (a * b)"
| "times_number _ _ = NaN"

text \<open>
  \<open>+(x.toFixed(f))\<close>, the only way the source uses \<open>toFixed\<close>: the number denoted by the
  string that \<open>Number.prototype.toFixed\<close> returns. \<open>toFixed\<close> throws a \<open>RangeError\<close> for
  \<open>f\<close> outside \<open>0..100\<close>, gives \<open>"NaN"\<close> for \<open>NaN\<close>, and otherwise takes the sign off,
  picks the integer \<open>n\<close> with \<open>n / 10^f\<close> nearest to the magnitude (the larger \<open>n\<close> on a
  tie) and prints \<open>n / 10^f\<close> with the sign put back. For magnitudes from \<open>10^21\<close> on it
  prints the number itself; every floating-point number that large is an integer, so
  this agrees with the rounding and has no branch of its own here.
\<close>

definition nearest_scaled :: "real \<Rightarrow> nat \<Rightarrow> real" where
  "nearest_scaled x f = of_int \<lfloor>x * 10 ^ f + 1 / 2\<rfloor> / 10 ^ f"

definition toFixed :: "number \<Rightarrow> int \<Rightarrow> error + number" where
  "toFixed v f =
     (if f < 0 \<or> 100 < f then Inl RangeError
      else case v of
             NaN \<Rightarrow> Inr NaN
           | Fin x \<Rightarrow> Inr (Fin (if x < 0 then - nearest_scaled (- x) (nat f)
                                 else nearest_scaled x (nat f))))"

section \<open>The data of the dashboard\<close>

record soil =
  ph :: real
  organicMatterPct :: real
  moisturePct :: real

record weather =
  tempC :: real
  rainNext7DaysMm :: real
  condition :: string

record features =
  crop :: string
  areaHa :: real
  soil :: soil
  weather :: weather

record prediction =
  yieldTons :: number
  confidence :: real

record recommendation =
  rtype :: string
  msg :: string

section \<open>\<open>fakePredictAPI\<close>\<close>

text \<open>
  The function is asynchronous: it first waits 600 ms on a timer, which always fires, and
  then computes. The model is the value its promise settles with: \<open>Inr\<close> the
  prediction it resolves to, \<open>Inl\<close> the error it would reject with.
\<close>

text \<open>The own properties of the literal \<open>{wheat: 3.2, rice: 4.0, maize: 5.0}\<close>.\<close>

definition baseByCrop :: "(string \<times> real) list" where
  "baseByCrop = [(''wheat'', 3.2), (''rice'', 4.0), (''maize'', 5.0)]"

text \<open>
  The literal inherits from \<open>Object.prototype\<close>; these are the property names the
  language standard puts there. Each of them holds a function, or (\<open>__proto__\<close>) gives
  the prototype object.
\<close>

definition objectPrototypeKeys :: "string list" where
  "objectPrototypeKeys =
     [''constructor'', ''hasOwnProperty'', ''isPrototypeOf'', ''propertyIsEnumerable'',
      ''toLocaleString'', ''toString'', ''valueOf'', ''__proto__'',
      ''__defineGetter__'', ''__defineSetter__'', ''__lookupGetter__'',
      ''__lookupSetter__'']"

text \<open>The property read \<open>baseByCrop[k]\<close>: own properties first, then the prototype.\<close>

definition getBaseByCrop :: "string \<Rightarrow> jsvalue" where
  "getBaseByCrop k =
     (case map_of baseByCrop k of
        Some v \<Rightarrow> Number v
      | None \<Rightarrow> if k \<in> set objectPrototypeKeys then Object else Undefined)"

definition base :: "string \<Rightarrow> jsvalue" where
  "base c = or_else (getBaseByCrop c) (Number 2.5)"

definition moistureFactor :: "soil \<Rightarrow> real" where
  "moistureFactor s = max 0.8 (min 1.2 (0.5 + moisturePct s / 50))"

definition phFactor :: "soil \<Rightarrow> real" where
  "phFactor s = 1 - \<bar>6.5 - ph s\<bar> / 10"

definition weatherFactor :: "weather \<Rightarrow> real" where
  "weatherFactor w = 1 - min 0.3 (\<bar>tempC w - 25\<bar> / 50)"

definition fakePredictAPI :: "features \<Rightarrow> error + prediction" where
  "fakePredictAPI ft =
     (case toFixed
             (times_number
               (times_number
                 (times_number
                   (times_number (ToNumber (base (crop ft)))
                                 (Fin (moistureFactor (soil ft))))
                   (Fin (phFactor (soil ft))))
                 (Fin (weatherFactor (weather ft))))
               (Fin (areaHa ft)))
             2 of
        Inl e \<Rightarrow> Inl e
      | Inr predictedYieldTons \<Rightarrow>
          Inr \<lparr>yieldTons = predictedYieldTons, confidence = 0.82\<rparr>)"

section \<open>\<open>generateRecommendations\<close>\<close>

text \<open>The dash of the last message is U+2014, written here as its three UTF-8 bytes.\<close>

definition generateRecommendations :: "string \<Rightarrow> soil \<Rightarrow> weather \<Rightarrow> recommendation list" where
  "generateRecommendations c s w =
     (let recs = [];
          recs = (if moisturePct s < 20
                  then recs @ [\<lparr>rtype = ''irrigation'',
                                msg = ''Apply 20mm irrigation in next 3 days''\<rparr>]
                  else recs @ [\<lparr>rtype = ''irrigation'',
                                msg = ''Soil moisture sufficient for 5 days''\<rparr>]);
          recs = (if organicMatterPct s < 2
                  then recs @ [\<lparr>rtype = ''fertilizer'',
                                msg = ''Apply 30kg/ha organic compost''\<rparr>]
                  else recs);
          recs = recs @ [\<lparr>rtype = ''pest'',
                          msg = ''Monitor for aphids '' @ [CHR 0xE2, CHR 0x80, CHR 0x94]
                                @ '' set up yellow sticky traps''\<rparr>]
      in recs)"

section \<open>Base yield and rounding in closed form\<close>

text \<open>
  The base yield per hectare as a table: 3.2 for wheat, 4.0 for rice, 5.0 for maize and 2.5
  for any other crop; and rounding to two decimal places (the nearest hundredth, a tie
  going away from zero).
\<close>

definition spec_base :: "string \<Rightarrow> real" where
  "spec_base c = (if c = ''wheat'' then 3.2 else if c = ''rice'' then 4.0
                  else if c = ''maize'' then 5.0 else 2.5)"

definition round2 :: "real \<Rightarrow> real" where
  "round2 x = sgn x * of_int (round (\<bar>x\<bar> * 100)) / 100"

section \<open>Reading results\<close>

text \<open>
  The invariant the specification gives for a yield estimate: a yield that is a number
  and not negative, and a confidence between 0 and 1.
\<close>

fun nonneg_number :: "number \<Rightarrow> bool" where
  "nonneg_number NaN = False"
| "nonneg_number (Fin y) = (0 \<le> y)"

fun estimate_ok :: "error + prediction \<Rightarrow> bool" where
  "estimate_ok (Inl e) = False"
| "estimate_ok (Inr p) = (nonneg_number (yieldTons p) \<and> 0 \<le> confidence p \<and> confidence p \<le> 1)"

text \<open>The comparison \<open>a <= b\<close> on numbers: false as soon as one side is \<open>NaN\<close>.\<close>

fun le_number :: "number \<Rightarrow> number \<Rightarrow> bool" where
  "le_number (Fin a) (Fin b) = (a \<le> b)"
| "le_number _ _ = False"

fun yield_le :: "error + prediction \<Rightarrow> error + prediction \<Rightarrow> bool" where
  "yield_le (Inr p) (Inr q) = le_number (yieldTons p) (yieldTons q)"
| "yield_le _ _ = False"

text \<open>The readings the dashboard feeds to both functions.\<close>

definition mockSoil :: soil where
  "mockSoil = \<lparr>ph = 6.5, organicMatterPct = 1.8, moisturePct = 24\<rparr>"

definition mockWeather :: weather where
  "mockWeather = \<lparr>tempC = 29, rainNext7DaysMm = 12, condition = ''Partly Cloudy''\<rparr>"

text \<open>The two irrigation messages and the categories of a list of advisories.\<close>

definition shortage_msg :: string where
  "shortage_msg = ''Apply 20mm irrigation in next 3 days''"

definition sufficient_msg :: string where
  "sufficient_msg = ''Soil moisture sufficient for 5 days''"

definition of_type :: "string \<Rightarrow> recommendation list \<Rightarrow> recommendation list" where
  "of_type t recs = filter (\<lambda>r. rtype r = t) recs"

section \<open>Rounding\<close>

lemma toFixed_2: "toFixed (Fin x) 2 = Inr (Fin (round2 x))"
proof (cases "x < 0")
  case True
  then show ?thesis
    by (simp add: toFixed_def nearest_scaled_def round2_def round_def)
next
  case False
  then show ?thesis
    by (cases "x = 0") (simp_all add: toFixed_def nearest_scaled_def round2_def round_def)
qed

lemma toFixed_NaN_2: "toFixed NaN 2 = Inr NaN"
  by (simp add: toFixed_def)

text \<open>\<open>round2\<close> is rounding to two decimals: a hundredth, at most half a hundredth away.\<close>

lemma round2_grid: "\<exists>n::int. round2 x = of_int n / 100"
proof (cases "x < 0")
  case True
  then have "round2 x = of_int (- round (\<bar>x\<bar> * 100)) / 100"
    by (simp add: round2_def)
  then show ?thesis by blast
next
  case False
  show ?thesis
  proof (cases "x = 0")
    case True
    then have "round2 x = of_int 0 / 100" by (simp add: round2_def)
    then show ?thesis by blast
  next
    case False
    with \<open>\<not> x < 0\<close> have "round2 x = of_int (round (\<bar>x\<bar> * 100)) / 100"
      by (simp add: round2_def)
    then show ?thesis by blast
  qed
qed

lemma round2_near: "\<bar>round2 x - x\<bar> \<le> 1 / 200"
proof -
  have r: "\<bar>of_int (round (\<bar>x\<bar> * 100)) - \<bar>x\<bar> * 100\<bar> \<le> 1 / 2"
    by (rule of_int_round_abs_le)
  show ?thesis
  proof (cases "x < 0")
    case True
    with r show ?thesis by (simp add: round2_def abs_if split: if_splits)
  next
    case False
    with r show ?thesis
      by (cases "x = 0") (simp_all add: round2_def abs_if split: if_splits)
  qed
qed

lemma round_abs_nonneg: "0 \<le> round (\<bar>x\<bar> * 100 :: real)"
proof -
  have "round (0::real) \<le> round (\<bar>x\<bar> * 100)"
    by (rule round_mono) simp
  then show ?thesis by simp
qed

lemma round2_nonneg: "0 \<le> x \<Longrightarrow> 0 \<le> round2 x"
  using round_abs_nonneg [of x] by (cases "x = 0") (simp_all add: round2_def)

lemma round2_nonpos: "x \<le> 0 \<Longrightarrow> round2 x \<le> 0"
  using round_abs_nonneg [of x] by (cases "x = 0") (simp_all add: round2_def)

lemma round2_mono: "x \<le> y \<Longrightarrow> round2 x \<le> round2 y"
proof -
  assume xy: "x \<le> y"
  consider "y \<le> 0" | "x \<le> 0" "0 < y" | "0 < x" by linarith
  then show ?thesis
  proof cases
    case 1
    with xy have "\<bar>y\<bar> * 100 \<le> \<bar>x\<bar> * 100" by simp
    then have le: "round (\<bar>y\<bar> * 100) \<le> round (\<bar>x\<bar> * 100)" by (rule round_mono)
    show ?thesis
    proof (cases "y = 0")
      case True
      with xy round2_nonpos [of x] show ?thesis by (simp add: round2_def)
    next
      case False
      with 1 xy le show ?thesis by (simp add: round2_def)
    qed
  next
    case 2
    then have "round2 x \<le> 0" and "0 \<le> round2 y"
      by (simp_all add: round2_nonpos round2_nonneg)
    then show ?thesis by linarith
  next
    case 3
    with xy have "\<bar>x\<bar> * 100 \<le> \<bar>y\<bar> * 100" by simp
    then have "round (\<bar>x\<bar> * 100) \<le> round (\<bar>y\<bar> * 100)" by (rule round_mono)
    with 3 xy show ?thesis by (simp add: round2_def)
  qed
qed

section \<open>The factors\<close>

lemma ToNumber_base:
  "c \<notin> set objectPrototypeKeys \<Longrightarrow> ToNumber (base c) = Fin (spec_base c)"
  by (simp add: base_def or_else_def getBaseByCrop_def baseByCrop_def spec_base_def)

lemma ToNumber_base_inherited:
  "c \<in> set objectPrototypeKeys \<Longrightarrow> ToNumber (base c) = NaN"
  by (auto simp add: base_def or_else_def getBaseByCrop_def baseByCrop_def
        objectPrototypeKeys_def)

lemma spec_base_pos: "0 < spec_base c"
  by (simp add: spec_base_def)

lemma moistureFactor_pos: "0 < moistureFactor s"
  by (simp add: moistureFactor_def max_def)

lemma weatherFactor_pos: "0 < weatherFactor w"
  by (simp add: weatherFactor_def min_def)

text \<open>
  The model of the function in one equation, for a crop that is not an inherited property
  name and for one that is.
\<close>

lemma fakePredictAPI_Fin:
  "crop ft \<notin> set objectPrototypeKeys \<Longrightarrow>
   fakePredictAPI ft =
     Inr \<lparr>yieldTons = Fin (round2 (spec_base (crop ft) * moistureFactor (soil ft)
                                     * phFactor (soil ft) * weatherFactor (weather ft)
                                     * areaHa ft)),
          confidence = 0.82\<rparr>"
  by (simp add: fakePredictAPI_def ToNumber_base toFixed_2)

lemma fakePredictAPI_NaN:
  "crop ft \<in> set objectPrototypeKeys \<Longrightarrow>
   fakePredictAPI ft = Inr \<lparr>yieldTons = NaN, confidence = 0.82\<rparr>"
  by (simp add: fakePredictAPI_def ToNumber_base_inherited toFixed_NaN_2)

section \<open>The yield estimate\<close>

text \<open>
  C2 (amended). For wheat on 1 hectare, soil with pH 6.5, organic matter 1.8 and moisture
  24, and a temperature of 29 degrees, the estimate has yield 2.89 (the product is
  2.88512) and confidence 0.82.
\<close>

theorem mock_estimate:
  "fakePredictAPI
     \<lparr>crop = ''wheat'', areaHa = 1,
      soil = \<lparr>ph = 6.5, organicMatterPct = 1.8, moisturePct = 24\<rparr>,
      weather = \<lparr>tempC = 29, rainNext7DaysMm = 12, condition = ''Partly Cloudy''\<rparr>\<rparr> =
   Inr \<lparr>yieldTons = Fin 2.89, confidence = 0.82\<rparr>"
  by (simp add: fakePredictAPI_def toFixed_def nearest_scaled_def base_def or_else_def
        getBaseByCrop_def baseByCrop_def moistureFactor_def phFactor_def weatherFactor_def)

text \<open>C2 as stated fails: the yield at that input is not 2.88.\<close>

theorem mock_estimate_counterexample:
  "fakePredictAPI
     \<lparr>crop = ''wheat'', areaHa = 1,
      soil = \<lparr>ph = 6.5, organicMatterPct = 1.8, moisturePct = 24\<rparr>,
      weather = \<lparr>tempC = 29, rainNext7DaysMm = 12, condition = ''Partly Cloudy''\<rparr>\<rparr> \<noteq>
   Inr \<lparr>yieldTons = Fin 2.88, confidence = 0.82\<rparr>"
  by (simp add: fakePredictAPI_def toFixed_def nearest_scaled_def base_def or_else_def
        getBaseByCrop_def baseByCrop_def moistureFactor_def phFactor_def weatherFactor_def)

text \<open>
  C6 (amended). For every crop that is not an inherited property name, and whenever
  the pH factor and the area do not have opposite signs (in particular for a pH between
  -3.5 and 16.5 and an area that is not negative), the estimate has a yield of at least 0
  and a confidence between 0 and 1.
\<close>

theorem estimate_within_bounds:
  "crop ft \<notin> set objectPrototypeKeys \<Longrightarrow> 0 \<le> phFactor (soil ft) * areaHa ft \<Longrightarrow>
   estimate_ok (fakePredictAPI ft)"
proof -
  assume c: "crop ft \<notin> set objectPrototypeKeys"
    and pa: "0 \<le> phFactor (soil ft) * areaHa ft"
  let ?k = "spec_base (crop ft) * moistureFactor (soil ft) * weatherFactor (weather ft)"
  have "0 < ?k"
    by (simp add: spec_base_pos moistureFactor_pos weatherFactor_pos)
  with pa have "0 \<le> ?k * (phFactor (soil ft) * areaHa ft)"
    by simp
  also have "?k * (phFactor (soil ft) * areaHa ft) =
      spec_base (crop ft) * moistureFactor (soil ft) * phFactor (soil ft)
        * weatherFactor (weather ft) * areaHa ft"
    by (simp add: mult_ac)
  finally have "0 \<le> round2 (spec_base (crop ft) * moistureFactor (soil ft)
      * phFactor (soil ft) * weatherFactor (weather ft) * areaHa ft)"
    by (rule round2_nonneg)
  with c show ?thesis
    by (simp add: fakePredictAPI_Fin)
qed

theorem estimate_within_bounds_witness:
  "''rice'' \<notin> set objectPrototypeKeys \<and>
   0 \<le> phFactor mockSoil * 3 \<and>
   estimate_ok
     (fakePredictAPI \<lparr>crop = ''rice'', areaHa = 3, soil = mockSoil, weather = mockWeather\<rparr>)"
  using estimate_within_bounds
          [of "\<lparr>crop = ''rice'', areaHa = 3, soil = mockSoil, weather = mockWeather\<rparr>"]
  by (simp add: objectPrototypeKeys_def phFactor_def mockSoil_def)

text \<open>
  C6 as stated fails: at pH 20 the pH factor is -0.35 and the yield of one hectare of
  wheat is -1.01.
\<close>

theorem estimate_within_bounds_counterexample:
  "\<not> estimate_ok
       (fakePredictAPI
          \<lparr>crop = ''wheat'', areaHa = 1,
           soil = \<lparr>ph = 20, organicMatterPct = 1.8, moisturePct = 24\<rparr>,
           weather = mockWeather\<rparr>)"
  by (simp add: fakePredictAPI_def toFixed_def nearest_scaled_def base_def or_else_def
        getBaseByCrop_def baseByCrop_def moistureFactor_def phFactor_def weatherFactor_def
        mockWeather_def)

text \<open>
  C7. Whatever the temperature, the weather factor
  \<open>1 - min(0.3, |tempC - 25| / 50)\<close> used by the estimate is at least 0.7.
\<close>

theorem weatherFactor_at_least:
  "0.7 \<le> weatherFactor w"
  by (simp add: weatherFactor_def min_def)

text \<open>
  C10. For every crop the property read resolves to a base yield (every string that is
  not an inherited property name, so every crop the dashboard's form can send), every
  soil sample whose pH factor is not negative and every weather snapshot, the yield does
  not decrease when the area grows: for areas \<open>a1 \<le> a2\<close> both estimates are returned
  with numeric yields, and the yield for \<open>a1\<close> is at most the yield for \<open>a2\<close>.
  Rounding to two decimals keeps the order.
\<close>

theorem yield_monotone_in_area:
  "c \<notin> set objectPrototypeKeys \<Longrightarrow> 0 \<le> phFactor s \<Longrightarrow> a1 \<le> a2 \<Longrightarrow>
   yield_le (fakePredictAPI \<lparr>crop = c, areaHa = a1, soil = s, weather = w\<rparr>)
            (fakePredictAPI \<lparr>crop = c, areaHa = a2, soil = s, weather = w\<rparr>)"
proof -
  assume c: "c \<notin> set objectPrototypeKeys" and p: "0 \<le> phFactor s" and a: "a1 \<le> a2"
  let ?k = "spec_base c * moistureFactor s * phFactor s * weatherFactor w"
  have "0 \<le> spec_base c * moistureFactor s"
    using spec_base_pos [of c] moistureFactor_pos [of s] by simp
  then have "0 \<le> spec_base c * moistureFactor s * phFactor s"
    using p by (rule mult_nonneg_nonneg)
  moreover have "0 \<le> weatherFactor w"
    using weatherFactor_pos [of w] by simp
  ultimately have "0 \<le> ?k"
    by (rule mult_nonneg_nonneg)
  with a have "?k * a1 \<le> ?k * a2"
    by (simp add: mult_left_mono)
  then have "round2 (?k * a1) \<le> round2 (?k * a2)"
    by (rule round2_mono)
  with c show ?thesis
    by (simp add: fakePredictAPI_Fin)
qed

theorem yield_monotone_in_area_witness:
  "''maize'' \<notin> set objectPrototypeKeys \<and> 0 \<le> phFactor mockSoil \<and> (1::real) \<le> 2 \<and>
   yield_le (fakePredictAPI \<lparr>crop = ''maize'', areaHa = 1, soil = mockSoil, weather = mockWeather\<rparr>)
            (fakePredictAPI \<lparr>crop = ''maize'', areaHa = 2, soil = mockSoil, weather = mockWeather\<rparr>)"
  using yield_monotone_in_area [of "''maize''" mockSoil 1 2 mockWeather]
  by (simp add: objectPrototypeKeys_def phFactor_def mockSoil_def)

section \<open>The advisories\<close>

text \<open>
  C3. For every input the list of advisories has two or three entries, its last entry is
  a pest advisory and the only one, and the categories are, in order, irrigation, then
  fertilizer or nothing, then pest.
\<close>

theorem recommend_shape:
  "2 \<le> length (generateRecommendations c s w) \<and>
   length (generateRecommendations c s w) \<le> 3 \<and>
   rtype (last (generateRecommendations c s w)) = ''pest'' \<and>
   length (of_type ''pest'' (generateRecommendations c s w)) = 1 \<and>
   (map rtype (generateRecommendations c s w) = [''irrigation'', ''pest''] \<or>
    map rtype (generateRecommendations c s w) = [''irrigation'', ''fertilizer'', ''pest''])"
  by (simp add: generateRecommendations_def Let_def of_type_def)

text \<open>
  C4. For every input there is exactly one irrigation advisory; it carries the shortage
  message if the moisture is below 20 and the sufficiency message otherwise, and the two
  messages differ. At moisture 19 it is the shortage message, at moisture 20 the
  sufficiency message.
\<close>

theorem recommend_irrigation:
  "of_type ''irrigation'' (generateRecommendations c s w) =
     [\<lparr>rtype = ''irrigation'',
       msg = (if moisturePct s < 20 then shortage_msg else sufficient_msg)\<rparr>] \<and>
   shortage_msg \<noteq> sufficient_msg \<and>
   map msg (of_type ''irrigation'' (generateRecommendations c (s\<lparr>moisturePct := 19\<rparr>) w)) =
     [shortage_msg] \<and>
   map msg (of_type ''irrigation'' (generateRecommendations c (s\<lparr>moisturePct := 20\<rparr>) w)) =
     [sufficient_msg]"
  by (simp add: generateRecommendations_def Let_def of_type_def shortage_msg_def
        sufficient_msg_def)

text \<open>
  C5. For every input the list holds a fertilizer advisory exactly when the organic
  matter is below 2 (strictly), never more than one, and none at organic matter 2.0.
\<close>

theorem recommend_fertilizer:
  "(''fertilizer'' \<in> set (map rtype (generateRecommendations c s w))) = (organicMatterPct s < 2) \<and>
   length (of_type ''fertilizer'' (generateRecommendations c s w)) \<le> 1 \<and>
   of_type ''fertilizer'' (generateRecommendations c (s\<lparr>organicMatterPct := 2.0\<rparr>) w) = []"
  by (simp add: generateRecommendations_def Let_def of_type_def)

text \<open>
  C8. Two calls with the same soil sample return the same advisories, whatever the crops
  and the weather snapshots are.
\<close>

theorem recommend_depends_on_soil_only:
  "generateRecommendations c1 s w1 = generateRecommendations c2 s w2"
  by (simp add: generateRecommendations_def)

section \<open>Totality\<close>

text \<open>
  C9. Both functions return for every input: for every crop string, every area (also
  zero or negative), every soil sample and every weather snapshot the estimate is a
  prediction and never an error, and the advisories are a list (which is not empty).
\<close>

theorem both_total:
  "(\<exists>p. fakePredictAPI ft = Inr p) \<and>
   (\<exists>recs. generateRecommendations c s w = recs \<and> recs \<noteq> [])"
proof
  show "\<exists>p. fakePredictAPI ft = Inr p"
  proof (cases "crop ft \<in> set objectPrototypeKeys")
    case True
    then show ?thesis by (simp add: fakePredictAPI_NaN)
  next
    case False
    then show ?thesis by (simp add: fakePredictAPI_Fin)
  qed
  show "\<exists>recs. generateRecommendations c s w = recs \<and> recs \<noteq> []"
    by (simp add: generateRecommendations_def Let_def)
qed

end
